theory Spec2Isabelle
  imports Complex_Main
begin

section \<open>Errors\<close>

text \<open>
  The Python exceptions that the modelled parts of \<^verbatim>\<open>training.py\<close> can raise.
  \<open>UnboundLocalError\<close> is what \<^verbatim>\<open>loss.backward()\<close> raises when no branch of the
  loss selection assigned \<^verbatim>\<open>loss\<close>. \<open>IllTypedDocument\<close> is not a Python exception: it
  marks a JSON document whose values do not fit the typed dataset record of this
  development (Python would store them as they are).
\<close>

datatype error =
    ZeroDivisionError
  | FileNotFoundError
  | KeyError string
  | TypeError
  | ValueError
  | IndexError
  | UnboundLocalError
  | IllTypedDocument

section \<open>Loss selection of the training loop\<close>

text \<open>
  The module \<^verbatim>\<open>losses\<close> and the criterion \<^verbatim>\<open>nn.CrossEntropyLoss\<close> are not part of
  \<^verbatim>\<open>training.py\<close>; they are taken as parameters. Network outputs and label
  batches are opaque (\<open>'o\<close> and \<open>'l\<close>), losses are real numbers (the idealisation
  of the floating-point scalars of the tensor library).
\<close>

record ('o, 'l) losses_module =
  lossfn :: "'o \<Rightarrow> 'l \<Rightarrow> real"
  generalized_dice_loss :: "'o \<Rightarrow> 'l \<Rightarrow> real list \<Rightarrow> real"
  dice_loss :: "'o \<Rightarrow> 'l \<Rightarrow> real"
  surface_loss :: "'l \<Rightarrow> 'o \<Rightarrow> real"

text \<open>Lines 296-298: the mixing coefficient of the DICE+BOUNDARY policy.\<close>

definition alpha_mix :: "int \<Rightarrow> int \<Rightarrow> real" where
  "alpha_mix epoch epochs_switch =
     (let alpha = 1.0 - real_of_int (epoch - epochs_switch) / 10.0
      in if alpha < 0.0 then 0.0 else alpha)"

text \<open>Lines 285-299: the loss of one mini-batch.\<close>

definition computeLoss ::
  "('o, 'l) losses_module \<Rightarrow> string \<Rightarrow> int \<Rightarrow> int \<Rightarrow> real list \<Rightarrow> 'o \<Rightarrow> 'l \<Rightarrow> error + real" where
  "computeLoss L loss_to_use epoch epochs_switch w_for_GDL outputs labels_batch =
     (if loss_to_use = ''CROSSENTROPY'' then
        Inr (lossfn L outputs labels_batch)
      else if loss_to_use = ''DICE'' then
        Inr (generalized_dice_loss L outputs labels_batch w_for_GDL)
      else if loss_to_use = ''BOUNDARY'' then
        Inr (surface_loss L labels_batch outputs)
      else if loss_to_use = ''DICE+BOUNDARY'' then
        (if epoch < epochs_switch then
           Inr (generalized_dice_loss L outputs labels_batch w_for_GDL)
         else
           (let alpha = alpha_mix epoch epochs_switch
            in Inr (alpha * dice_loss L outputs labels_batch
                    + (1.0 - alpha) * 0.3 * surface_loss L labels_batch outputs)))
      else Inl UnboundLocalError)"

text \<open>
  A small concrete losses module over numeric stand-ins for tensors, used to
  evaluate the definitions at concrete inputs.
\<close>

definition example_losses :: "(real, real) losses_module" where
  "example_losses =
     \<lparr> lossfn = (\<lambda>out lab. (out - lab) * (out - lab)),
       generalized_dice_loss = (\<lambda>out lab w. sum_list w * (out - lab)),
       dice_loss = (\<lambda>out lab. out - lab),
       surface_loss = (\<lambda>lab out. out * lab) \<rparr>"

section \<open>Class weights of the generalized Dice loss\<close>

text \<open>
  Lines 260-263. \<^verbatim>\<open>datasetTrain.weights\<close> is a one-dimensional float array, here
  a list of reals; the arithmetic of numpy is elementwise, \<^verbatim>\<open>w.sum()\<close> is the sum
  of the elements, and the scalar \<^verbatim>\<open>0.00001\<close> is broadcast to every element.
\<close>

definition weights_for_GDL :: "real list \<Rightarrow> real list" where
  "weights_for_GDL dataset_weights =
     (let weights = drop 1 dataset_weights;
          freq = map (\<lambda>x. 1.0 / x) weights;
          w = map (\<lambda>f. 1.0 / (f * f)) freq
      in map (\<lambda>x. x / sum_list w + 0.00001) w)"

section \<open>Gradient accumulation in a training epoch\<close>

text \<open>
  The optimizer is instrumented: \<open>accumulated\<close> counts the mini-batch gradients
  added by \<^verbatim>\<open>loss.backward()\<close> since the last \<^verbatim>\<open>optimizer.zero_grad()\<close>, and
  \<open>applied\<close> records, for each call of \<^verbatim>\<open>optimizer.step()\<close> in order, how many
  mini-batch gradients the step was applied to.
\<close>

record opt_state =
  accumulated :: nat
  applied :: "nat list"

definition backward :: "opt_state \<Rightarrow> opt_state" where
  "backward opt = opt \<lparr> accumulated := accumulated opt + 1 \<rparr>"

definition optimizer_step :: "opt_state \<Rightarrow> opt_state" where
  "optimizer_step opt = opt \<lparr> applied := applied opt @ [accumulated opt] \<rparr>"

definition zero_grad :: "opt_state \<Rightarrow> opt_state" where
  "zero_grad opt = opt \<lparr> accumulated := 0 \<rparr>"

text \<open>
  Lines 273-309: the loop over the mini-batches of one epoch, \<open>i\<close> being the
  index that \<^verbatim>\<open>enumerate\<close> supplies. A mini-batch is given by the network outputs
  and the labels. \<^verbatim>\<open>(i+1) % batch_mult\<close> raises when \<^verbatim>\<open>batch_mult\<close> is 0.
\<close>

fun minibatch_loop ::
  "('o, 'l) losses_module \<Rightarrow> string \<Rightarrow> int \<Rightarrow> int \<Rightarrow> real list \<Rightarrow> int \<Rightarrow>
   nat \<Rightarrow> ('o \<times> 'l) list \<Rightarrow> opt_state \<Rightarrow> real \<Rightarrow> error + (opt_state \<times> real)" where
  "minibatch_loop L loss_to_use epoch epochs_switch w batch_mult i [] opt running_loss =
     Inr (opt, running_loss)"
| "minibatch_loop L loss_to_use epoch epochs_switch w batch_mult i (minibatch # rest) opt running_loss =
     (case computeLoss L loss_to_use epoch epochs_switch w (fst minibatch) (snd minibatch) of
        Inl e \<Rightarrow> Inl e
      | Inr loss \<Rightarrow>
          (let opt1 = backward opt
           in if batch_mult = 0 then Inl ZeroDivisionError
              else
                (let opt2 = (if (int i + 1) mod batch_mult = 0
                             then zero_grad (optimizer_step opt1) else opt1)
                 in minibatch_loop L loss_to_use epoch epochs_switch w batch_mult (i + 1) rest
                      opt2 (running_loss + loss))))"

text \<open>Lines 270-309: one epoch starts with \<^verbatim>\<open>optimizer.zero_grad()\<close> and a zero running loss.\<close>

definition train_epoch ::
  "('o, 'l) losses_module \<Rightarrow> string \<Rightarrow> int \<Rightarrow> int \<Rightarrow> real list \<Rightarrow> int \<Rightarrow>
   ('o \<times> 'l) list \<Rightarrow> opt_state \<Rightarrow> error + (opt_state \<times> real)" where
  "train_epoch L loss_to_use epoch epochs_switch w batch_mult dataloaderTrain opt =
     minibatch_loop L loss_to_use epoch epochs_switch w batch_mult 0 dataloaderTrain
       (zero_grad opt) 0.0"

section \<open>Metrics of scikit-learn\<close>

text \<open>
  \<^verbatim>\<open>confusion_matrix\<close> and \<^verbatim>\<open>jaccard_score\<close> belong to scikit-learn, not to this
  repository; the two definitions below follow their documented behaviour.
  Label arrays are lists of Python integers.

  \<^verbatim>\<open>confusion_matrix(y_true, y_pred, labels)\<close>: entry \<open>(i, j)\<close> counts the positions
  whose true label is the \<open>i\<close>-th of \<^verbatim>\<open>labels\<close> and whose predicted label is the
  \<open>j\<close>-th; positions with a true or predicted label outside \<^verbatim>\<open>labels\<close> are not
  counted. It raises \<^verbatim>\<open>ValueError\<close> for arrays of different lengths, for an empty
  \<^verbatim>\<open>labels\<close>, and when no label of \<^verbatim>\<open>labels\<close> occurs in a non-empty \<^verbatim>\<open>y_true\<close>.
\<close>

definition confusion_matrix :: "int list \<Rightarrow> int list \<Rightarrow> int list \<Rightarrow> error + int list list" where
  "confusion_matrix y_true y_pred labels =
     (if length y_true \<noteq> length y_pred then Inl ValueError
      else if labels = [] then Inl ValueError
      else if y_true = [] then Inr (map (\<lambda>t. map (\<lambda>p. 0) labels) labels)
      else if \<forall>l \<in> set labels. l \<notin> set y_true then Inl ValueError
      else Inr (map (\<lambda>t. map (\<lambda>p. int (length (filter (\<lambda>tp. tp = (t, p)) (zip y_true y_pred))))
                             labels) labels))"

text \<open>
  \<^verbatim>\<open>jaccard_score(y_true, y_pred, average='weighted')\<close>: the labels are the sorted
  distinct values of both arrays; for each label the score is
  \<open>TP / (TP + FP + FN)\<close> (0 where the denominator is 0) and the result is the mean
  of the scores weighted by the support \<open>TP + FN\<close> of each label, the plain mean
  when every support is 0. On empty arrays numpy yields NaN, which a real
  cannot hold; the value 0 stands there, and \<open>evaluateNetwork\<close> below raises in
  that case whatever this value is, since its confusion matrix is then zero.
\<close>

definition true_positives :: "int list \<Rightarrow> int list \<Rightarrow> int \<Rightarrow> nat" where
  "true_positives y_true y_pred l = length (filter (\<lambda>tp. fst tp = l \<and> snd tp = l) (zip y_true y_pred))"

definition false_positives :: "int list \<Rightarrow> int list \<Rightarrow> int \<Rightarrow> nat" where
  "false_positives y_true y_pred l = length (filter (\<lambda>tp. fst tp \<noteq> l \<and> snd tp = l) (zip y_true y_pred))"

definition false_negatives :: "int list \<Rightarrow> int list \<Rightarrow> int \<Rightarrow> nat" where
  "false_negatives y_true y_pred l = length (filter (\<lambda>tp. fst tp = l \<and> snd tp \<noteq> l) (zip y_true y_pred))"

definition jaccard_of_label :: "int list \<Rightarrow> int list \<Rightarrow> int \<Rightarrow> real" where
  "jaccard_of_label y_true y_pred l =
     (let numerator = true_positives y_true y_pred l;
          denominator = true_positives y_true y_pred l + false_positives y_true y_pred l
                        + false_negatives y_true y_pred l
      in if denominator = 0 then 0 else real numerator / real denominator)"

definition jaccard_score :: "int list \<Rightarrow> int list \<Rightarrow> real" where
  "jaccard_score y_true y_pred =
     (let labels = sort (remdups (y_true @ y_pred));
          jaccard = map (jaccard_of_label y_true y_pred) labels;
          weights = map (\<lambda>l. real (true_positives y_true y_pred l + false_negatives y_true y_pred l))
                      labels
      in if labels = [] then 0
         else if sum_list weights = 0 then sum_list jaccard / real (length jaccard)
         else sum_list (map (\<lambda>jw. fst jw * snd jw) (zip jaccard weights)) / sum_list weights)"

section \<open>Evaluation of the network\<close>

text \<open>
  The network, the dataset and the cross-entropy criterion are opaque. A batch
  is given by what they produce: for every sample of the batch the pixels in
  \<^verbatim>\<open>ravel()\<close> order, each a pair of the true label (\<^verbatim>\<open>labels_batch\<close>) and the label
  predicted by \<^verbatim>\<open>torch.max(outputs, 1)\<close>, and the value of
  \<^verbatim>\<open>lossfn(outputs, labels_batch)\<close>. Writing the classification results to
  \<^verbatim>\<open>savefolder\<close> does not change what the function returns and is left out.
\<close>

record batch =
  pixels :: "(int \<times> int) list list"
  loss_value :: real

record dataloader =
  batch_size :: nat
  batches :: "batch list"

record eval_state =
  CM :: "int list list"
  ypred_list :: "int list"
  ytrue_list :: "int list"
  loss_values :: "real list"

text \<open>\<open>None\<close> in the normalised matrix is numpy's NaN, the result of \<open>0 / 0\<close>.\<close>

record metrics =
  ConfMatrix :: "int list list"
  NormConfMatrix :: "real option list list"
  Accuracy :: real
  JaccardScore :: real

definition matrix_add :: "int list list \<Rightarrow> int list list \<Rightarrow> int list list" where
  "matrix_add A B = map (\<lambda>rows. map (\<lambda>ab. fst ab + snd ab) (zip (fst rows) (snd rows))) (zip A B)"

text \<open>
  Lines 109-114: the loop \<^verbatim>\<open>for i in range(batch_size)\<close> over the samples of one
  batch; \<^verbatim>\<open>pred_cpu[i]\<close> raises \<^verbatim>\<open>IndexError\<close> on a batch with fewer samples.
\<close>

primrec confusion_loop ::
  "nat \<Rightarrow> (int \<times> int) list list \<Rightarrow> nat list \<Rightarrow> int list list \<Rightarrow> error + int list list" where
  "confusion_loop nclasses samples [] cm = Inr cm"
| "confusion_loop nclasses samples (i # rest) cm =
     (if length samples \<le> i then Inl IndexError
      else
        (let pred_index = map snd (samples ! i);
             true_index = map fst (samples ! i)
         in case confusion_matrix true_index pred_index (map int [0..<nclasses]) of
              Inl e \<Rightarrow> Inl e
            | Inr confmat \<Rightarrow> confusion_loop nclasses samples rest (matrix_add cm confmat)))"

text \<open>Lines 83-121: the loop over the batches of the data loader.\<close>

primrec batch_loop ::
  "nat \<Rightarrow> nat \<Rightarrow> bool \<Rightarrow> batch list \<Rightarrow> eval_state \<Rightarrow> error + eval_state" where
  "batch_loop nclasses bsize flagTrainingDataset [] st = Inr st"
| "batch_loop nclasses bsize flagTrainingDataset (data # rest) st =
     (let st1 = st \<lparr> loss_values := loss_values st @ [loss_value data] \<rparr>;
          st2 = (if \<not> flagTrainingDataset
                 then st1 \<lparr> ypred_list := ypred_list st1 @ map snd (concat (pixels data)),
                            ytrue_list := ytrue_list st1 @ map fst (concat (pixels data)) \<rparr>
                 else st1)
      in case confusion_loop nclasses (pixels data) [0..<bsize] (CM st2) of
           Inl e \<Rightarrow> Inl e
         | Inr cm \<Rightarrow> batch_loop nclasses bsize flagTrainingDataset rest (st2 \<lparr> CM := cm \<rparr>))"

definition initial_eval_state :: "nat \<Rightarrow> eval_state" where
  "initial_eval_state nclasses =
     \<lparr> CM = replicate nclasses (replicate nclasses 0),
       ypred_list = [], ytrue_list = [], loss_values = [] \<rparr>"

text \<open>
  Lines 123-148. \<^verbatim>\<open>sum(loss_values) / len(loss_values)\<close> divides the integer 0 by
  the integer 0 when no batch was seen, and \<^verbatim>\<open>float(pixels_correct) / float(pixels_total)\<close>
  divides by zero when the confusion matrix is zero: Python raises
  \<^verbatim>\<open>ZeroDivisionError\<close> in both places. The division of numpy arrays that
  normalises the rows does not raise.
\<close>

definition evaluateNetwork :: "dataloader \<Rightarrow> nat \<Rightarrow> bool \<Rightarrow> error + (metrics \<times> real)" where
  "evaluateNetwork loader nclasses flagTrainingDataset =
     (case batch_loop nclasses (batch_size loader) flagTrainingDataset (batches loader)
             (initial_eval_state nclasses) of
        Inl e \<Rightarrow> Inl e
      | Inr st \<Rightarrow>
          if length (loss_values st) = 0 then Inl ZeroDivisionError
          else
            (let mean_loss = sum_list (loss_values st) / real (length (loss_values st));
                 jaccard_s = (if \<not> flagTrainingDataset
                              then jaccard_score (ytrue_list st) (ypred_list st) else 0.0);
                 sum_row = map sum_list (CM st);
                 CMnorm = map (\<lambda>rs. map (\<lambda>c. if snd rs = 0 then None
                                               else Some (real_of_int c / real_of_int (snd rs)))
                                     (fst rs))
                            (zip (CM st) sum_row);
                 pixels_total = sum_list (map sum_list (CM st));
                 pixels_correct = sum_list (map (\<lambda>i. CM st ! i ! i) [0..<nclasses])
             in if pixels_total = 0 then Inl ZeroDivisionError
                else Inr (\<lparr> ConfMatrix = CM st, NormConfMatrix = CMnorm,
                            Accuracy = real_of_int pixels_correct / real_of_int pixels_total,
                            JaccardScore = jaccard_s \<rparr>, mean_loss)))"

section \<open>Best-model checkpoint of the training loop\<close>

text \<open>
  The calls that write to durable storage are logged in order:
  \<^verbatim>\<open>torch.save(net.state_dict(), save_network_as)\<close> and
  \<^verbatim>\<open>saveMetrics(metrics, filename)\<close>. The network state is opaque (\<open>'net\<close>).
\<close>

datatype 'net io_call =
    TorchSave 'net string
  | SaveMetrics metrics string

record 'net train_state =
  best_accuracy :: real
  best_jaccard_score :: real
  io_log :: "'net io_call list"

text \<open>Lines 256-257.\<close>

definition initial_train_state :: "'net train_state" where
  "initial_train_state = \<lparr> best_accuracy = 0.0, best_jaccard_score = 0.0, io_log = [] \<rparr>"

text \<open>
  The Python slice \<^verbatim>\<open>s[:k]\<close>: a negative \<open>k\<close> counts from the end and the bounds
  are clipped.
\<close>

definition slice_to :: "string \<Rightarrow> int \<Rightarrow> string" where
  "slice_to s k = (if 0 \<le> k then take (nat k) s else take (nat (int (length s) + k)) s)"

text \<open>
  Lines 334-343: what the training loop does with the metrics of one validation
  pass, \<open>net\<close> being the state of the network at that pass.
\<close>

definition checkpoint_if_best ::
  "string \<Rightarrow> 'net \<times> metrics \<times> metrics \<Rightarrow> 'net train_state \<Rightarrow> 'net train_state" where
  "checkpoint_if_best save_network_as pass st =
     (let net = fst pass; metrics_val = fst (snd pass); metrics_train = snd (snd pass);
          accuracy = Accuracy metrics_val;
          jaccard = JaccardScore metrics_val
      in if jaccard > best_jaccard_score st then
           st \<lparr> best_accuracy := accuracy,
                best_jaccard_score := jaccard,
                io_log := io_log st @
                  [ TorchSave net save_network_as,
                    SaveMetrics metrics_val
                      (slice_to save_network_as (int (length save_network_as) - 4) @ ''-val-metrics.txt''),
                    SaveMetrics metrics_train
                      (slice_to save_network_as (int (length save_network_as) - 4) @ ''-train-metrics.txt'') ] \<rparr>
         else st)"

text \<open>The successive validation passes of a run, in the order of the epochs.\<close>

primrec validation_passes ::
  "string \<Rightarrow> ('net \<times> metrics \<times> metrics) list \<Rightarrow> 'net train_state \<Rightarrow> 'net train_state" where
  "validation_passes save_network_as [] st = st"
| "validation_passes save_network_as (pass # rest) st =
     validation_passes save_network_as rest (checkpoint_if_best save_network_as pass st)"

text \<open>The calls of \<^verbatim>\<open>torch.save\<close> in a log, and the network states they saved.\<close>

fun saved_networks :: "'net io_call list \<Rightarrow> 'net list" where
  "saved_networks [] = []"
| "saved_networks (TorchSave net f # rest) = net # saved_networks rest"
| "saved_networks (SaveMetrics m f # rest) = saved_networks rest"

text \<open>Metrics with a given Jaccard score, for concrete runs.\<close>

definition metrics_with_jaccard :: "real \<Rightarrow> metrics" where
  "metrics_with_jaccard j =
     \<lparr> ConfMatrix = [[1]], NormConfMatrix = [[Some 1]], Accuracy = 1, JaccardScore = j \<rparr>"

section \<open>Classifier metadata\<close>

text \<open>
  The values that \<^verbatim>\<open>json.load\<close> returns and \<^verbatim>\<open>json.dumps\<close> accepts. A dictionary
  is the list of its items in insertion order, its keys distinct.
\<close>

datatype json =
    JNull
  | JBool bool
  | JInt int
  | JFloat real
  | JStr string
  | JList "json list"
  | JDict "(string \<times> json) list"

text \<open>
  The text of a file is abstracted to what the JSON decoder makes of it: a
  document, or text that \<^verbatim>\<open>json.load\<close> rejects with \<^verbatim>\<open>JSONDecodeError\<close>. That
  \<^verbatim>\<open>json.load\<close> returns the value \<^verbatim>\<open>json.dumps\<close> was given (Python prints a float
  with the shortest digits that read back as the same float) is the contract
  of the library and built into this abstraction. A file system maps the names
  of the existing files to their contents.
\<close>

datatype file_content =
    JsonText json
  | NotJson

definition json_dumps :: "json \<Rightarrow> file_content" where
  "json_dumps v = JsonText v"

fun json_load :: "file_content \<Rightarrow> json option" where
  "json_load (JsonText v) = Some v"
| "json_load NotJson = None"

text \<open>
  The dataset object, with the types the data model gives its four fields.
  \<^verbatim>\<open>list(...)\<close> and \<^verbatim>\<open>np.array(...)\<close> convert between a float array and the list
  of its elements.
\<close>

record dataset =
  num_classes :: int
  weights :: "real list"
  dataset_average :: "real list"
  dict_target :: "(string \<times> int) list"

text \<open>\<^verbatim>\<open>loaded_dict[key]\<close>: only a dictionary can be indexed by a string.\<close>

fun getitem :: "json \<Rightarrow> string \<Rightarrow> error + json" where
  "getitem (JDict items) key =
     (case map_of items key of None \<Rightarrow> Inl (KeyError key) | Some v \<Rightarrow> Inr v)"
| "getitem v key = Inl TypeError"

fun as_int :: "json \<Rightarrow> int option" where
  "as_int (JInt n) = Some n"
| "as_int v = None"

fun floats_of :: "json list \<Rightarrow> real list option" where
  "floats_of [] = Some []"
| "floats_of (JFloat x # rest) = map_option (\<lambda>xs. x # xs) (floats_of rest)"
| "floats_of (v # rest) = None"

fun as_float_array :: "json \<Rightarrow> real list option" where
  "as_float_array (JList vs) = floats_of vs"
| "as_float_array v = None"

fun classes_of :: "(string \<times> json) list \<Rightarrow> (string \<times> int) list option" where
  "classes_of [] = Some []"
| "classes_of ((name, JInt n) # rest) = map_option (\<lambda>kvs. (name, n) # kvs) (classes_of rest)"
| "classes_of (kv # rest) = None"

fun as_classes :: "json \<Rightarrow> (string \<times> int) list option" where
  "as_classes (JDict items) = classes_of items"
| "as_classes v = None"

text \<open>
  Lines 151-163. The result is the exception that left the function, if any,
  and the dataset object as the call left it. \<^verbatim>\<open>open\<close> is outside the \<^verbatim>\<open>try\<close>
  block, whose handler catches \<^verbatim>\<open>json.JSONDecodeError\<close> only.
\<close>

definition readClassifierInfo ::
  "(string \<rightharpoonup> file_content) \<Rightarrow> string \<Rightarrow> dataset \<Rightarrow> error option \<times> dataset" where
  "readClassifierInfo fs filename dataset =
     (case fs filename of
        None \<Rightarrow> (Some FileNotFoundError, dataset)
      | Some f \<Rightarrow>
          (case json_load f of
             None \<Rightarrow> (None, dataset)
           | Some loaded_dict \<Rightarrow>
               (case getitem loaded_dict ''Num. Classes'' of
                  Inl e \<Rightarrow> (Some e, dataset)
                | Inr v1 \<Rightarrow>
               (case as_int v1 of
                  None \<Rightarrow> (Some IllTypedDocument, dataset)
                | Some n \<Rightarrow>
               (let d1 = dataset \<lparr> num_classes := n \<rparr> in
               (case getitem loaded_dict ''Weights'' of
                  Inl e \<Rightarrow> (Some e, d1)
                | Inr v2 \<Rightarrow>
               (case as_float_array v2 of
                  None \<Rightarrow> (Some IllTypedDocument, d1)
                | Some ws \<Rightarrow>
               (let d2 = d1 \<lparr> weights := ws \<rparr> in
               (case getitem loaded_dict ''Average'' of
                  Inl e \<Rightarrow> (Some e, d2)
                | Inr v3 \<Rightarrow>
               (case as_float_array v3 of
                  None \<Rightarrow> (Some IllTypedDocument, d2)
                | Some avg \<Rightarrow>
               (let d3 = d2 \<lparr> dataset_average := avg \<rparr> in
               (case getitem loaded_dict ''Classes'' of
                  Inl e \<Rightarrow> (Some e, d3)
                | Inr v4 \<Rightarrow>
               (case as_classes v4 of
                  None \<Rightarrow> (Some IllTypedDocument, d3)
                | Some cls \<Rightarrow> (None, d3 \<lparr> dict_target := cls \<rparr>))))))))))))))"

text \<open>Lines 166-180.\<close>

definition writeClassifierInfo ::
  "(string \<rightharpoonup> file_content) \<Rightarrow> string \<Rightarrow> string \<Rightarrow> dataset \<Rightarrow> (string \<rightharpoonup> file_content)" where
  "writeClassifierInfo fs filename classifier_name dataset =
     (let dict_to_save =
            JDict [ (''Classifier Name'', JStr classifier_name),
                    (''Weights'', JList (map JFloat (weights dataset))),
                    (''Average'', JList (map JFloat (dataset_average dataset))),
                    (''Num. Classes'', JInt (num_classes dataset)),
                    (''Classes'', JDict (map (\<lambda>kv. (fst kv, JInt (snd kv))) (dict_target dataset))) ];
          str = json_dumps dict_to_save
      in fs (filename \<mapsto> str))"

section \<open>Loss schedule\<close>

lemma alpha_mix_at_switch: "alpha_mix e e = 1"
  by (simp add: alpha_mix_def)

lemma alpha_mix_clamped:
  assumes "epochs_switch + 10 \<le> epoch"
  shows "alpha_mix epoch epochs_switch = 0"
proof -
  have "10 \<le> real_of_int (epoch - epochs_switch)"
    using assms by linarith
  then show ?thesis
    by (simp add: alpha_mix_def Let_def)
qed

text \<open>
  C1. At \<open>epoch = epochs_switch\<close> the DICE+BOUNDARY policy has \<open>alpha = 1\<close> and
  returns \<^verbatim>\<open>losses.dice_loss(outputs, labels_batch)\<close>, the Dice loss that takes no
  class weights, whereas one epoch earlier it returns
  \<^verbatim>\<open>losses.generalized_dice_loss(outputs, labels_batch, w_for_GDL)\<close>.
\<close>

theorem C1_switch_epoch_uses_dice_loss:
  "computeLoss L ''DICE+BOUNDARY'' s s w out lab = Inr (dice_loss L out lab)
   \<and> computeLoss L ''DICE+BOUNDARY'' (s - 1) s w out lab
       = Inr (generalized_dice_loss L out lab w)"
  by (simp add: computeLoss_def alpha_mix_at_switch)

text \<open>
  C4. For every epoch with \<open>epoch \<ge> epochs_switch + 10\<close> the mixing coefficient of
  the DICE+BOUNDARY policy is 0 and the loss is exactly 0.3 times the surface
  (boundary) loss of the same predictions and ground truth.
\<close>

theorem C4_boundary_only_after_decay:
  assumes "epochs_switch + 10 \<le> epoch"
  shows "alpha_mix epoch epochs_switch = 0
         \<and> computeLoss L ''DICE+BOUNDARY'' epoch epochs_switch w out lab
             = Inr (0.3 * surface_loss L lab out)"
proof -
  have a: "alpha_mix epoch epochs_switch = 0"
    using assms by (rule alpha_mix_clamped)
  have "\<not> epoch < epochs_switch"
    using assms by linarith
  then show ?thesis
    using a by (simp add: computeLoss_def)
qed

theorem C4_boundary_only_after_decay_witness:
  "(8::int) + 10 \<le> 18
   \<and> alpha_mix 18 8 = 0
   \<and> computeLoss example_losses ''DICE+BOUNDARY'' 18 8 [0.5, 0.5] 2 3 = Inr (0.3 * 6)"
  using C4_boundary_only_after_decay [of 8 18 example_losses "[0.5, 0.5]" 2 3]
  by (simp add: example_losses_def)

section \<open>Generalized Dice weights\<close>

lemma sum_list_add_const:
  "sum_list (map (\<lambda>x. f x + (c::real)) xs) = sum_list (map f xs) + real (length xs) * c"
  by (induction xs) (simp_all add: algebra_simps)

lemma sum_list_div_const:
  "sum_list (map (\<lambda>x. f x / (c::real)) xs) = sum_list (map f xs) / c"
  by (induction xs) (simp_all add: add_divide_distrib)

lemma weights_for_GDL_unfold:
  "weights_for_GDL ws =
     map (\<lambda>x. (1 / (1 / x)\<^sup>2) / sum_list (map (\<lambda>y. 1 / (1 / y)\<^sup>2) (drop 1 ws)) + 0.00001)
       (drop 1 ws)"
  by (simp add: weights_for_GDL_def Let_def comp_def power2_eq_square)

lemma sum_list_map_pos:
  assumes "xs \<noteq> []" and "\<forall>x \<in> set xs. 0 < (f x :: real)"
  shows "0 < sum_list (map f xs)"
  using assms
proof (induction xs)
  case Nil
  then show ?case by simp
next
  case (Cons a xs)
  have "0 \<le> sum_list (map f xs)"
    using Cons.prems(2) by (intro sum_list_nonneg) auto
  moreover have "0 < f a"
    using Cons.prems(2) by simp
  ultimately show ?case by simp
qed

lemma sum_squares_pos:
  assumes "xs \<noteq> []" and "\<forall>x \<in> set xs. x \<noteq> (0::real)"
  shows "0 < sum_list (map (\<lambda>y. 1 / (1 / y)\<^sup>2) xs)"
proof (rule sum_list_map_pos [OF assms(1)])
  show "\<forall>x \<in> set xs. 0 < 1 / (1 / x)\<^sup>2"
    using assms(2) by simp
qed

text \<open>
  C7 (as the code has it). The vector passed to the generalized Dice loss drops
  the background weight (index 0), maps every remaining weight \<open>x\<close> to
  \<open>1 / (1/x)\<^sup>2\<close>, divides by the sum of the mapped weights (so the quotients sum
  to 1 when the remaining weights are nonzero) and adds \<open>0.00001\<close> to every
  component: the result sums to 1 plus \<open>0.00001\<close> times the number of
  non-background classes.
\<close>

theorem C7_weights_for_GDL_sum:
  assumes "drop 1 ws \<noteq> []" and "\<forall>x \<in> set (drop 1 ws). x \<noteq> 0"
  shows "weights_for_GDL ws =
           map (\<lambda>x. (1 / (1 / x)\<^sup>2) / sum_list (map (\<lambda>y. 1 / (1 / y)\<^sup>2) (drop 1 ws)) + 0.00001)
             (drop 1 ws)
         \<and> sum_list (map (\<lambda>x. (1 / (1 / x)\<^sup>2) / sum_list (map (\<lambda>y. 1 / (1 / y)\<^sup>2) (drop 1 ws)))
                      (drop 1 ws)) = 1
         \<and> sum_list (weights_for_GDL ws) = 1 + real (length ws - 1) * 0.00001"
proof -
  let ?t = "drop 1 ws"
  let ?S = "sum_list (map (\<lambda>y. 1 / (1 / y)\<^sup>2) ?t)"
  have pos: "0 < ?S" using assms by (rule sum_squares_pos)
  have "sum_list (map (\<lambda>x. (1 / (1 / x)\<^sup>2) / ?S) ?t) = ?S / ?S"
    by (rule sum_list_div_const)
  then have one: "sum_list (map (\<lambda>x. (1 / (1 / x)\<^sup>2) / ?S) ?t) = 1"
    using pos by simp
  have "sum_list (weights_for_GDL ws)
          = sum_list (map (\<lambda>x. (1 / (1 / x)\<^sup>2) / ?S) ?t) + real (length ?t) * 0.00001"
    unfolding weights_for_GDL_unfold by (rule sum_list_add_const)
  then have total: "sum_list (weights_for_GDL ws) = 1 + real (length ws - 1) * 0.00001"
    using one by simp
  show ?thesis using weights_for_GDL_unfold one total by blast
qed

theorem C7_weights_for_GDL_sum_witness:
  "drop 1 [0.1, 0.2, 0.3, 0.4 :: real] \<noteq> []
   \<and> (\<forall>x \<in> set (drop 1 [0.1, 0.2, 0.3, 0.4 :: real]). x \<noteq> 0)
   \<and> sum_list (weights_for_GDL [0.1, 0.2, 0.3, 0.4]) = 1 + 3 * 0.00001"
  using C7_weights_for_GDL_sum [of "[0.1, 0.2, 0.3, 0.4]"] by simp

text \<open>
  C7 (as the spec words it) fails: with the four class weights 0.1, 0.2, 0.3, 0.4
  the vector does not sum to \<open>1 + 0.00001\<close>.
\<close>

theorem C7_sum_counterexample:
  "sum_list (weights_for_GDL [0.1, 0.2, 0.3, 0.4]) \<noteq> 1 + 0.00001"
  by (simp add: weights_for_GDL_def)

section \<open>Gradient accumulation\<close>

lemma computeLoss_known:
  assumes "loss_to_use \<in> {''CROSSENTROPY'', ''DICE'', ''BOUNDARY'', ''DICE+BOUNDARY''}"
  shows "\<exists>v. computeLoss L loss_to_use epoch epochs_switch w out lab = Inr v"
  using assms by (auto simp add: computeLoss_def Let_def)

lemma minibatch_loop_steps:
  assumes m: "0 < m"
    and known: "loss_to_use \<in> {''CROSSENTROPY'', ''DICE'', ''BOUNDARY'', ''DICE+BOUNDARY''}"
  shows "accumulated opt = i mod m \<Longrightarrow>
         \<exists>rl. minibatch_loop L loss_to_use epoch epochs_switch w (int m) i minibatches opt r
           = Inr (\<lparr> accumulated = (i + length minibatches) mod m,
                    applied = applied opt
                      @ replicate ((i + length minibatches) div m - i div m) m \<rparr>, rl)"
proof (induction minibatches arbitrary: i opt r)
  case Nil
  then show ?case by simp
next
  case (Cons b bs)
  obtain v where v: "computeLoss L loss_to_use epoch epochs_switch w (fst b) (snd b) = Inr v"
    using computeLoss_known [OF known, of L epoch epochs_switch w "fst b" "snd b"] by blast
  have modeq: "((int i + 1) mod int m = 0) = (Suc i mod m = 0)"
    by (metis of_nat_Suc of_nat_mod of_nat_eq_0_iff add.commute of_nat_1 of_nat_add)
  show ?case
  proof (cases "Suc i mod m = 0")
    case True
    let ?opt2 = "zero_grad (optimizer_step (backward opt))"
    have acc: "accumulated ?opt2 = Suc i mod m"
      using True by (simp add: zero_grad_def optimizer_step_def backward_def)
    have full: "Suc (i mod m) = m"
      using True m by (metis mod_Suc mod_less_divisor nat.distinct(1))
    have divs: "Suc i div m = Suc (i div m)"
      using True m full by (metis div_Suc)
    obtain rl where rl:
      "minibatch_loop L loss_to_use epoch epochs_switch w (int m) (Suc i) bs ?opt2 (r + v)
         = Inr (\<lparr> accumulated = (Suc i + length bs) mod m,
                  applied = applied ?opt2
                    @ replicate ((Suc i + length bs) div m - Suc i div m) m \<rparr>, rl)"
      using Cons.IH [OF acc] by blast
    have app: "applied ?opt2 = applied opt @ [m]"
      using Cons.prems full by (simp add: zero_grad_def optimizer_step_def backward_def)
    have mono: "Suc i div m \<le> (Suc i + length bs) div m"
      by (rule div_le_mono) simp
    have rep: "[m] @ replicate ((Suc i + length bs) div m - Suc i div m) m
                 = replicate ((i + length (b # bs)) div m - i div m) m"
    proof -
      have "(i + length (b # bs)) div m - i div m
              = Suc ((Suc i + length bs) div m - Suc i div m)"
        using divs mono by simp
      then show ?thesis by simp
    qed
    show ?thesis
      using v rl m True modeq app rep by (simp add: Let_def)
  next
    case False
    let ?opt2 = "backward opt"
    have nz: "Suc (i mod m) \<noteq> m"
      using False by (metis mod_Suc)
    have acc: "accumulated ?opt2 = Suc i mod m"
      using Cons.prems nz by (simp add: backward_def mod_Suc)
    have divs: "Suc i div m = i div m"
      using False by (simp add: div_Suc)
    obtain rl where rl:
      "minibatch_loop L loss_to_use epoch epochs_switch w (int m) (Suc i) bs ?opt2 (r + v)
         = Inr (\<lparr> accumulated = (Suc i + length bs) mod m,
                  applied = applied ?opt2
                    @ replicate ((Suc i + length bs) div m - Suc i div m) m \<rparr>, rl)"
      using Cons.IH [OF acc] by blast
    have app: "applied ?opt2 = applied opt"
      by (simp add: backward_def)
    show ?thesis
      using v rl m False modeq app divs by (simp add: Let_def)
  qed
qed

text \<open>
  C6. With a positive \<^verbatim>\<open>batch_mult\<close> and one of the four loss policies, an epoch
  over \<open>n\<close> mini-minibatches calls \<^verbatim>\<open>optimizer.step()\<close> exactly \<open>n div batch_mult\<close>
  times, every call on exactly \<^verbatim>\<open>batch_mult\<close> accumulated mini-batch gradients,
  and each call is followed by the reset: the \<open>n mod batch_mult\<close> gradients left
  at the end of the epoch are never applied. This holds for every \<open>n\<close>, so the
  steps fall exactly on every \<^verbatim>\<open>batch_mult\<close>-th mini-batch.
\<close>

theorem C6_step_every_batch_mult:
  assumes "0 < batch_mult"
    and "loss_to_use \<in> {''CROSSENTROPY'', ''DICE'', ''BOUNDARY'', ''DICE+BOUNDARY''}"
  shows "\<exists>running_loss.
           train_epoch L loss_to_use epoch epochs_switch w batch_mult minibatches opt
             = Inr (\<lparr> accumulated = length minibatches mod nat batch_mult,
                      applied = applied opt
                        @ replicate (length minibatches div nat batch_mult) (nat batch_mult) \<rparr>,
                    running_loss)"
proof -
  have m: "0 < nat batch_mult" using assms(1) by simp
  have acc: "accumulated (zero_grad opt) = 0 mod nat batch_mult"
    by (simp add: zero_grad_def)
  have "\<exists>rl. minibatch_loop L loss_to_use epoch epochs_switch w (int (nat batch_mult)) 0 minibatches
               (zero_grad opt) 0.0
          = Inr (\<lparr> accumulated = (0 + length minibatches) mod nat batch_mult,
                   applied = applied (zero_grad opt)
                     @ replicate ((0 + length minibatches) div nat batch_mult - 0 div nat batch_mult)
                         (nat batch_mult) \<rparr>, rl)"
    using minibatch_loop_steps [OF m assms(2) acc] .
  then show ?thesis
    using assms(1) by (simp add: train_epoch_def zero_grad_def)
qed

theorem C6_step_every_batch_mult_witness:
  "(0::int) < 8
   \<and> ''DICE+BOUNDARY'' \<in> {''CROSSENTROPY'', ''DICE'', ''BOUNDARY'', ''DICE+BOUNDARY''}
   \<and> (\<exists>running_loss.
        train_epoch example_losses ''DICE+BOUNDARY'' 9 8 [0.5, 0.5] 8
          (replicate 20 (2, 3)) \<lparr> accumulated = 5, applied = [] \<rparr>
        = Inr (\<lparr> accumulated = 4, applied = replicate 2 8 \<rparr>, running_loss))"
  using C6_step_every_batch_mult [of 8 "''DICE+BOUNDARY''" example_losses 9 8 "[0.5, 0.5]"
      "replicate 20 (2, 3)" "\<lparr> accumulated = 5, applied = [] \<rparr>"]
  by simp

section \<open>Evaluation\<close>

text \<open>
  C3. On a data loader that yields no batch, evaluation fails whatever the
  batch size, the number of classes and the mode are: the mean of the empty
  list of losses divides by zero (line 123) and no metrics are returned. The
  failure that the specification calls EmptySplitError is Python's
  ZeroDivisionError.
\<close>

theorem C3_empty_loader_raises:
  "evaluateNetwork \<lparr> batch_size = bsize, batches = [] \<rparr> nclasses flagTrainingDataset
     = Inl ZeroDivisionError"
  by (simp add: evaluateNetwork_def initial_eval_state_def)

lemma confusion_matrix_ignores_label:
  assumes "t \<notin> set labels" and "y_true \<noteq> []" and "length y_true = length y_pred"
  shows "confusion_matrix (y_true @ [t]) (y_pred @ [p]) labels
           = confusion_matrix y_true y_pred labels"
proof -
  have "\<And>a b. a \<in> set labels \<Longrightarrow>
          filter (\<lambda>tp. tp = (a, b)) (zip (y_true @ [t]) (y_pred @ [p]))
            = filter (\<lambda>tp. tp = (a, b)) (zip y_true y_pred)"
    using assms(1,3) by auto
  then have cells:
    "map (\<lambda>a. map (\<lambda>b. int (length (filter (\<lambda>tp. tp = (a, b)) (zip (y_true @ [t]) (y_pred @ [p])))))
                 labels) labels
       = map (\<lambda>a. map (\<lambda>b. int (length (filter (\<lambda>tp. tp = (a, b)) (zip y_true y_pred))))
                 labels) labels"
    by simp
  have present: "(\<forall>l \<in> set labels. l \<notin> set (y_true @ [t])) = (\<forall>l \<in> set labels. l \<notin> set y_true)"
    using assms(1) by auto
  show ?thesis
    unfolding confusion_matrix_def using assms(2,3) cells present by simp
qed

text \<open>
  C5. A pixel whose true label is the ignore value \<open>-1\<close> is counted nowhere in
  the confusion matrix, but it takes part in the weighted Jaccard score: for
  one image with the pixels (true 0, predicted 0) and (true \<open>-1\<close>, predicted 0)
  the evaluation returns the Jaccard score 1/4, while the same image without
  the ignored pixel has the same confusion matrix and the Jaccard score 1.
\<close>

theorem C5_ignored_pixel_changes_jaccard:
  "evaluateNetwork
     \<lparr> batch_size = 1, batches = [\<lparr> pixels = [[(0, 0), (-1, 0)]], loss_value = 1 \<rparr>] \<rparr> 2 False
     = Inr (\<lparr> ConfMatrix = [[1, 0], [0, 0]],
              NormConfMatrix = [[Some 1, Some 0], [None, None]],
              Accuracy = 1, JaccardScore = 1 / 4 \<rparr>, 1)
   \<and> evaluateNetwork
     \<lparr> batch_size = 1, batches = [\<lparr> pixels = [[(0, 0)]], loss_value = 1 \<rparr>] \<rparr> 2 False
     = Inr (\<lparr> ConfMatrix = [[1, 0], [0, 0]],
              NormConfMatrix = [[Some 1, Some 0], [None, None]],
              Accuracy = 1, JaccardScore = 1 \<rparr>, 1)"
  by (simp add: evaluateNetwork_def initial_eval_state_def confusion_matrix_def matrix_add_def
      jaccard_score_def jaccard_of_label_def true_positives_def false_positives_def
      false_negatives_def Let_def upt_rec numeral_2_eq_2)

lemma batch_loop_training_buffers:
  "batch_loop nclasses bsize True bs st = Inr st' \<Longrightarrow>
     ypred_list st' = ypred_list st \<and> ytrue_list st' = ytrue_list st"
proof (induction bs arbitrary: st)
  case Nil
  then show ?case by simp
next
  case (Cons data rest)
  let ?st1 = "st \<lparr> loss_values := loss_values st @ [loss_value data] \<rparr>"
  from Cons.prems obtain cm where
    step: "batch_loop nclasses bsize True rest (?st1 \<lparr> CM := cm \<rparr>) = Inr st'"
    by (auto simp add: Let_def split: sum.splits)
  from Cons.IH [OF step] show ?case by simp
qed

text \<open>
  C10. In the mode \<^verbatim>\<open>flagTrainingDataset=True\<close> the loop over the batches leaves
  the buffers of true and predicted labels empty, and every metrics object the
  evaluation returns has the Jaccard score 0, whatever the predictions are.
\<close>

theorem C10_training_mode_jaccard_zero:
  "(\<forall>st. batch_loop nclasses (batch_size loader) True (batches loader)
            (initial_eval_state nclasses) = Inr st
          \<longrightarrow> ypred_list st = [] \<and> ytrue_list st = [])
   \<and> (\<forall>m mean_loss. evaluateNetwork loader nclasses True = Inr (m, mean_loss)
          \<longrightarrow> JaccardScore m = 0)"
proof (intro conjI allI impI)
  fix st
  assume "batch_loop nclasses (batch_size loader) True (batches loader)
            (initial_eval_state nclasses) = Inr st"
  from batch_loop_training_buffers [OF this]
  show "ypred_list st = []" and "ytrue_list st = []"
    by (simp_all add: initial_eval_state_def)
next
  fix m mean_loss
  assume "evaluateNetwork loader nclasses True = Inr (m, mean_loss)"
  then show "JaccardScore m = 0"
    by (auto simp add: evaluateNetwork_def Let_def split: sum.splits if_splits)
qed

end
